theory Spec2Isabelle
  imports Complex_Main "HOL-Library.Sublist" "HOL-Library.Multiset"
begin

section \<open>Conventions of the embedding\<close>

text \<open>
  The program is TypeScript. A JavaScript \<open>number\<close> that holds a score or a coordinate is
  modelled as a \<^typ>\<open>real\<close> (finite values, exact arithmetic); a token count as an
  \<^typ>\<open>int\<close>; an array length, an array index and a tensor dimension as a \<^typ>\<open>nat\<close>.
  \<open>Result<T, E>\<close> of shared/result.ts is the datatype below. Calls into libraries that are
  not part of the repository (the tokenizer, \<open>crypto.randomUUID\<close>, the embedding pipeline, the
  \<open>Tensor\<close> constructor, Zod's \<open>uuidv4\<close> format check) are parameters of the functions that
  make them. Where two records share a field name the field is written with its record's
  name in front.
\<close>

datatype ('t, 'e) Result = Ok 't | Error 'e

fun isOk :: "('t, 'e) Result \<Rightarrow> bool" where
  "isOk (Ok v) = True"
| "isOk (Error e) = False"

fun isError :: "('t, 'e) Result \<Rightarrow> bool" where
  "isError (Ok v) = False"
| "isError (Error e) = True"

text \<open>\<open>Array.prototype.join\<close>.\<close>

fun join :: "string \<Rightarrow> string list \<Rightarrow> string" where
  "join sep [] = []"
| "join sep [s] = s"
| "join sep (s # s' # ss) = s @ sep @ join sep (s' # ss)"

definition NL :: string where
  "NL = [CHR 0x0A]"

section \<open>Shared constants (shared/constants.ts, scripts/embed.ts)\<close>

definition MODEL_NAME :: string where
  "MODEL_NAME = ''Xenova/all-MiniLM-L6-v2''"

definition MAX_TOKENS :: int where
  "MAX_TOKENS = 200"

definition TARGET_TOKENS :: int where
  "TARGET_TOKENS = 200"

definition OVERLAP_TOKENS :: int where
  "OVERLAP_TOKENS = 20"

definition TEXT_MAX_TOKENS :: int where
  "TEXT_MAX_TOKENS = 256"

definition TEXT_OVERLAP_TOKENS :: int where
  "TEXT_OVERLAP_TOKENS = 85"

section \<open>Knee-point selection (shared/embeddings.ts)\<close>

record Point =
  x :: real
  y :: real

definition perpendicularDistance :: "Point \<Rightarrow> Point \<Rightarrow> Point \<Rightarrow> real" where
  "perpendicularDistance point lineStart lineEnd =
     (let numerator = \<bar>(x lineEnd - x lineStart) * (y lineStart - y point) -
                        (x lineStart - x point) * (y lineEnd - y lineStart)\<bar>;
          denominator = sqrt ((x lineEnd - x lineStart)\<^sup>2 + (y lineEnd - y lineStart)\<^sup>2)
      in numerator / denominator)"

text \<open>
  The body of the \<open>for\<close> loop of \<open>findKneePoint\<close> at rank \<open>i\<close>; the loop state is the pair
  \<open>(maxDistance, kneeIndex)\<close>.
\<close>

definition kneeStep :: "real list \<Rightarrow> nat \<Rightarrow> real \<times> nat \<Rightarrow> real \<times> nat" where
  "kneeStep scores i st =
     (let n = length scores;
          firstPoint = \<lparr>x = 0, y = scores ! 0\<rparr>;
          lastPoint = \<lparr>x = real (n - 1), y = scores ! (n - 1)\<rparr>;
          (maxDistance, kneeIndex) = st;
          point = \<lparr>x = real i, y = scores ! i\<rparr>;
          distance = perpendicularDistance point firstPoint lastPoint
      in if distance > maxDistance then (distance, i) else (maxDistance, kneeIndex))"

text \<open>The loop runs \<open>i = 1, ..., n - 2\<close>, starting from \<open>maxDistance = 0\<close>, \<open>kneeIndex = n\<close>.\<close>

definition findKneePoint :: "real list \<Rightarrow> nat" where
  "findKneePoint scores =
     (if length scores \<le> 2 then length scores
      else let n = length scores;
               (maxDistance, kneeIndex) = fold (kneeStep scores) [1 ..< n - 1] (0, n)
           in kneeIndex)"

record IndexedScore =
  index :: nat
  score :: real

text \<open>
  The first two statements of \<open>findBestResults\<close>: pair every score with its index, then
  \<open>indexed.sort((a, b) => b.score - a.score)\<close>. \<open>Array.prototype.sort\<close> is stable, so for this
  comparator its result is the stable sort by descending score, which is what the insertion
  sort \<^const>\<open>sort_key\<close> on the negated score computes.
\<close>

definition sortIndexed :: "real list \<Rightarrow> IndexedScore list" where
  "sortIndexed scores =
     (let indexed = map (\<lambda>(index, score). \<lparr>index = index, score = score\<rparr>)
                        (zip [0 ..< length scores] scores)
      in sort_key (\<lambda>item. - score item) indexed)"

definition findBestResults :: "real list \<Rightarrow> nat list" where
  "findBestResults scores =
     (let indexed = sortIndexed scores;
          sortedScores = map score indexed;
          cutoff = findKneePoint sortedScores
      in map index (take cutoff indexed))"

section \<open>The immutable stack (scripts/lib/immutable-stack.ts)\<close>

record 'a Stack =
  items :: "'a list"

definition Stack_create :: "'a list \<Rightarrow> 'a Stack" where
  "Stack_create its = \<lparr>items = its\<rparr>"

definition Stack_push :: "'a Stack \<Rightarrow> 'a \<Rightarrow> 'a Stack" where
  "Stack_push stack item = \<lparr>items = items stack @ [item]\<rparr>"

definition Stack_pop :: "'a Stack \<Rightarrow> 'a option \<times> 'a Stack" where
  "Stack_pop stack =
     (if length (items stack) = 0 then (None, stack)
      else let newItems = butlast (items stack);
               poppedItem = last (items stack)
           in (Some poppedItem, \<lparr>items = newItems\<rparr>))"

definition Stack_peek :: "'a Stack \<Rightarrow> 'a option" where
  "Stack_peek stack = (if items stack = [] then None else Some (last (items stack)))"

definition Stack_isEmpty :: "'a Stack \<Rightarrow> bool" where
  "Stack_isEmpty stack = (length (items stack) = 0)"

definition Stack_size :: "'a Stack \<Rightarrow> nat" where
  "Stack_size stack = length (items stack)"

section \<open>The chunk assembler (scripts/lib/chunk-with-context.ts)\<close>

datatype Work = AppliedPythonProgramming | ThePythonTutorial

text \<open>
  A \<open>SemanticBlock\<close>; its \<open>node\<close> (the syntax-tree node) is left out, the assembler never reads
  it. \<open>headingLevel\<close> is the field of the subtype \<open>Heading\<close>; it is read only when
  \<open>type = "heading"\<close>.
\<close>

record SemanticBlock =
  type :: string
  "text" :: string
  markdown :: string
  tokens :: int
  headingLevel :: nat

definition isHeading :: "SemanticBlock \<Rightarrow> bool" where
  "isHeading semanticBlock = (type semanticBlock = ''heading'')"

record HeadingDatum =
  "text" :: string
  level :: nat

record FinalizedChunk =
  headingPath :: "string list"
  totalTokens :: int
  rawText :: string
  markdownText :: string
  work :: Work
  title :: string
  id :: string

text \<open>
  The \<open>while\<close> loop of \<open>updateHeadingStack\<close>: pop while the stack has a top whose level is at
  least the new heading's.
\<close>

function popDeeper :: "HeadingDatum Stack \<Rightarrow> nat \<Rightarrow> HeadingDatum Stack" where
  "popDeeper headings lvl =
     (case Stack_peek headings of
        None \<Rightarrow> headings
      | Some topItem \<Rightarrow>
          if level topItem \<ge> lvl then popDeeper (snd (Stack_pop headings)) lvl
          else headings)"
  by pat_completeness auto
termination
  by (relation "measure (\<lambda>(headings, lvl). length (items headings))")
     (auto simp: Stack_peek_def Stack_pop_def Let_def split: if_splits)

declare popDeeper.simps [simp del]

definition updateHeadingStack :: "HeadingDatum Stack \<Rightarrow> SemanticBlock \<Rightarrow> HeadingDatum Stack" where
  "updateHeadingStack headings heading =
     Stack_push (popDeeper headings (headingLevel heading))
       \<lparr>HeadingDatum.text = SemanticBlock.text heading, level = headingLevel heading\<rparr>"

text \<open>
  The backward \<open>for\<close> loop of \<open>calculateOverlap\<close>, over the blocks still to visit in visiting
  order (last block first), with the accumulators \<open>overlap\<close> and \<open>tokens\<close>.
\<close>

fun overlapLoop :: "SemanticBlock list \<Rightarrow> SemanticBlock list \<Rightarrow> int \<Rightarrow> SemanticBlock list" where
  "overlapLoop [] overlap toks = overlap"
| "overlapLoop (block # rest) overlap toks =
     (if toks + tokens block \<le> OVERLAP_TOKENS
      then overlapLoop rest (block # overlap) (toks + tokens block)
      else overlap)"

definition calculateOverlap :: "SemanticBlock list \<Rightarrow> SemanticBlock list" where
  "calculateOverlap blocks = overlapLoop (rev blocks) [] 0"

text \<open>
  \<open>finalizeChunk\<close>. \<open>countTokens\<close> is the tokenizer and \<open>uuid\<close> the value that
  \<open>crypto.randomUUID()\<close> returns for this chunk.
\<close>

definition finalizeChunk ::
  "(string \<Rightarrow> int) \<Rightarrow> string \<Rightarrow> SemanticBlock list \<Rightarrow> SemanticBlock list \<Rightarrow>
   HeadingDatum Stack \<Rightarrow> Work \<Rightarrow> string \<Rightarrow> FinalizedChunk" where
  "finalizeChunk countTokens uuid blocks overlapBlocks headings wrk ttl =
     (let headingPath = map HeadingDatum.text (items headings);
          parts = (if length headingPath > 0 then [''# '' @ join '' > '' headingPath] else [])
                  @ (if length overlapBlocks > 0
                     then [join (NL @ NL) (map SemanticBlock.text overlapBlocks)] else [])
                  @ [join (NL @ NL) (map SemanticBlock.text blocks)];
          textWithContext = join (NL @ NL) parts;
          totalTokens = countTokens textWithContext;
          markdownParts = (if length overlapBlocks > 0
                           then [join NL (map markdown overlapBlocks)] else [])
                          @ [join NL (map markdown blocks)];
          markdown = join NL markdownParts
      in \<lparr>headingPath = headingPath,
          totalTokens = totalTokens,
          rawText = textWithContext,
          markdownText = markdown,
          work = wrk,
          title = ttl,
          id = uuid\<rparr>)"

text \<open>The local variables of \<open>chunkWithContext\<close>.\<close>

record ChunkerState =
  chunks :: "FinalizedChunk list"
  headingStack :: "HeadingDatum Stack"
  currentBlocks :: "SemanticBlock list"
  overlapBlocks :: "SemanticBlock list"

text \<open>
  One iteration of the \<open>for\<close> loop of \<open>chunkWithContext\<close>. \<open>randomUUID k\<close> is the identifier
  drawn for the chunk pushed when \<open>k\<close> chunks have been pushed.
\<close>

definition chunkStep ::
  "(string \<Rightarrow> int) \<Rightarrow> (nat \<Rightarrow> string) \<Rightarrow> Work \<Rightarrow> string \<Rightarrow>
   ChunkerState \<Rightarrow> SemanticBlock \<Rightarrow> ChunkerState" where
  "chunkStep countTokens randomUUID wrk ttl st block =
     (let hs = (if isHeading block then updateHeadingStack (headingStack st) block
                else headingStack st);
          currentTokens = foldl (\<lambda>sum b. sum + tokens b) 0 (currentBlocks st);
          wouldExceed = (currentTokens + tokens block > MAX_TOKENS)
      in if length (currentBlocks st) > 0 \<and> wouldExceed
         then \<lparr>chunks = chunks st @
                  [finalizeChunk countTokens (randomUUID (length (chunks st)))
                     (currentBlocks st) (overlapBlocks st) hs wrk ttl],
               headingStack = hs,
               currentBlocks = [block],
               overlapBlocks = calculateOverlap (currentBlocks st)\<rparr>
         else \<lparr>chunks = chunks st,
               headingStack = hs,
               currentBlocks = currentBlocks st @ [block],
               overlapBlocks = overlapBlocks st\<rparr>)"

definition chunkerInit :: ChunkerState where
  "chunkerInit = \<lparr>chunks = [], headingStack = Stack_create [], currentBlocks = [],
                   overlapBlocks = []\<rparr>"

definition chunkLoop ::
  "(string \<Rightarrow> int) \<Rightarrow> (nat \<Rightarrow> string) \<Rightarrow> Work \<Rightarrow> string \<Rightarrow>
   SemanticBlock list \<Rightarrow> ChunkerState" where
  "chunkLoop countTokens randomUUID wrk ttl blocks =
     foldl (chunkStep countTokens randomUUID wrk ttl) chunkerInit blocks"

definition chunkWithContext ::
  "(string \<Rightarrow> int) \<Rightarrow> (nat \<Rightarrow> string) \<Rightarrow> SemanticBlock list \<Rightarrow> Work \<Rightarrow> string \<Rightarrow>
   FinalizedChunk list" where
  "chunkWithContext countTokens randomUUID blocks wrk ttl =
     (let st = chunkLoop countTokens randomUUID wrk ttl blocks
      in if length (currentBlocks st) > 0
         then chunks st @
                [finalizeChunk countTokens (randomUUID (length (chunks st)))
                   (currentBlocks st) (overlapBlocks st) (headingStack st) wrk ttl]
         else chunks st)"

section \<open>The plain-text path (scripts/embed.ts)\<close>

record BasicChunk =
  chunks :: "string list"
  tokenCounts :: "int list"
  totalTokens :: int

definition emptyBasicChunk :: BasicChunk where
  "emptyBasicChunk = \<lparr>chunks = [], tokenCounts = [], totalTokens = 0\<rparr>"

text \<open>
  The backward \<open>for\<close> loop of \<open>getOverlapChunks\<close>. The first argument after the target is
  \<open>i + 1\<close> for the loop index \<open>i\<close> (so \<open>0\<close> ends the loop); the state is
  \<open>(accumulatedTokens, overlapChunks, overlapTokenCounts)\<close>. \<open>chunks\<close> and \<open>tokenCounts\<close> are
  parallel arrays of one length in every \<open>BasicChunk\<close> the program builds.
\<close>

fun overlapChunksLoop ::
  "BasicChunk \<Rightarrow> int \<Rightarrow> nat \<Rightarrow> int \<times> string list \<times> int list \<Rightarrow> int \<times> string list \<times> int list" where
  "overlapChunksLoop basicChunk targetOverlap 0 st = st"
| "overlapChunksLoop basicChunk targetOverlap (Suc i) (accumulatedTokens, overlapChunks, overlapTokenCounts) =
     (let newTokens = tokenCounts basicChunk ! i
      in if accumulatedTokens > 0 \<and> accumulatedTokens + newTokens > targetOverlap
         then (accumulatedTokens, overlapChunks, overlapTokenCounts)
         else overlapChunksLoop basicChunk targetOverlap i
                (accumulatedTokens + newTokens,
                 BasicChunk.chunks basicChunk ! i # overlapChunks,
                 newTokens # overlapTokenCounts))"

definition getOverlapChunks :: "BasicChunk \<Rightarrow> int \<Rightarrow> BasicChunk" where
  "getOverlapChunks basicChunk targetOverlap =
     (let (accumulatedTokens, overlapChunks, overlapTokenCounts) =
            overlapChunksLoop basicChunk targetOverlap
              (length (BasicChunk.chunks basicChunk)) (0, [], [])
      in \<lparr>chunks = overlapChunks,
          tokenCounts = overlapTokenCounts,
          totalTokens = accumulatedTokens\<rparr>)"

definition finalizeBasicChunk :: "string \<Rightarrow> BasicChunk \<Rightarrow> Work \<Rightarrow> string \<Rightarrow> FinalizedChunk" where
  "finalizeBasicChunk uuid basicChunk wrk ttl =
     (let txt = join '''' (BasicChunk.chunks basicChunk)
      in \<lparr>headingPath = [''The Python Tutorial''],
          FinalizedChunk.totalTokens = BasicChunk.totalTokens basicChunk,
          rawText = txt,
          markdownText = txt,
          work = wrk,
          title = ttl,
          id = uuid\<rparr>)"

text \<open>
  One iteration of the \<open>for\<close> loop of \<open>processDocument\<close>; the state is \<open>(chunks, current)\<close>.
\<close>

definition documentStep ::
  "(string \<Rightarrow> int) \<Rightarrow> (nat \<Rightarrow> string) \<Rightarrow> Work \<Rightarrow> string \<Rightarrow>
   FinalizedChunk list \<times> BasicChunk \<Rightarrow> string \<Rightarrow> FinalizedChunk list \<times> BasicChunk" where
  "documentStep countTokens randomUUID wrk ttl st txt =
     (let (chunks, current) = st;
          newTokens = countTokens txt;
          (chunks, current) =
            (if BasicChunk.totalTokens current + newTokens \<ge> TEXT_MAX_TOKENS
             then (chunks @ [finalizeBasicChunk (randomUUID (length chunks)) current wrk ttl],
                   getOverlapChunks current TEXT_OVERLAP_TOKENS)
             else (chunks, current))
      in (chunks,
          \<lparr>chunks = BasicChunk.chunks current @ [txt],
           tokenCounts = tokenCounts current @ [newTokens],
           totalTokens = BasicChunk.totalTokens current + newTokens\<rparr>))"

text \<open>
  \<open>processDocument\<close>, from the segments \<open>texts = splitText(rawText)\<close> of the file on; \<open>wrk\<close> and
  \<open>ttl\<close> are \<open>input.work\<close> and \<open>input.title\<close>. The function returns \<open>chunks\<close> as the loop
  leaves it.
\<close>

definition processDocument ::
  "(string \<Rightarrow> int) \<Rightarrow> (nat \<Rightarrow> string) \<Rightarrow> Work \<Rightarrow> string \<Rightarrow> string list \<Rightarrow>
   FinalizedChunk list" where
  "processDocument countTokens randomUUID wrk ttl texts =
     fst (foldl (documentStep countTokens randomUUID wrk ttl) ([], emptyBasicChunk) texts)"

section \<open>Tensors and their transport form (shared/embeddings.ts)\<close>

text \<open>
  A \<open>Transformers.Tensor\<close>: its element type, its flat row-major data (a \<open>Float32Array\<close> or
  another typed array) and its dimensions.
\<close>

datatype DataArray = Float32Array "real list" | OtherTypedArray "real list"

record Tensor =
  type :: string
  data :: DataArray
  dims :: "nat list"

record TensorData =
  dataType :: string
  data :: "real list"
  dimensions :: "real \<times> real"

text \<open>
  \<open>TensorDataSchema.safeParse\<close> on a payload of the shape
  \<open>{dataType, data, dimensions: [rows, cols]}\<close>: the literal, the two \<open>min(0)\<close> checks and the
  refinement. The refinement's message is the source's; the others stand for Zod's own.
\<close>

definition TensorDataSchema :: "TensorData \<Rightarrow> (TensorData, string) Result" where
  "TensorDataSchema td =
     (if dataType td \<noteq> ''float32'' then Error ''Invalid input: expected float32''
      else if fst (dimensions td) < 0 \<or> snd (dimensions td) < 0
      then Error ''Too small: expected number to be >=0''
      else if \<not> (real (length (TensorData.data td)) = fst (dimensions td) * snd (dimensions td))
      then Error ''data.length !== dimensions[0] * dimensions[1]''
      else Ok td)"

definition createTensorData :: "Tensor \<Rightarrow> (TensorData, string) Result" where
  "createTensorData tensor =
     (if Tensor.type tensor \<noteq> ''float32'' then Error ''Tensor must be of type float32''
      else case Tensor.data tensor of
             OtherTypedArray vs \<Rightarrow> Error ''Tensor data must be a Float32Array''
           | Float32Array vs \<Rightarrow>
               if length (dims tensor) \<noteq> 2 then Error ''Tensor dimensions must be 2D''
               else Ok \<lparr>dataType = Tensor.type tensor,
                        data = vs,
                        dimensions = (real (dims tensor ! 0), real (dims tensor ! 1))\<rparr>)"

definition checkTensorDataDimensions :: "TensorData \<Rightarrow> bool" where
  "checkTensorDataDimensions tensorData =
     (int (length (TensorData.data tensorData)) =
        round (fst (dimensions tensorData) * snd (dimensions tensorData)))"

text \<open>
  \<open>tensorFromTensorData\<close>. \<open>newTensor\<close> is the library's constructor
  \<open>new Transformers.Tensor(dataType, data, dimensions)\<close>: \<open>Ok\<close> the tensor it builds, or \<open>Error\<close>
  the text of what it throws.
\<close>

definition tensorFromTensorData ::
  "(string \<Rightarrow> real list \<Rightarrow> real \<times> real \<Rightarrow> (Tensor, string) Result) \<Rightarrow> TensorData \<Rightarrow>
   (Tensor, string) Result" where
  "tensorFromTensorData newTensor tensorData =
     (case newTensor (dataType tensorData) (TensorData.data tensorData) (dimensions tensorData) of
        Ok floatArray \<Rightarrow> Ok floatArray
      | Error err \<Rightarrow> Error (''Failed to create Float32Array: '' @ err))"

text \<open>
  \<open>serializeTensor\<close> and \<open>deserializeTensor\<close>. The JSON text is represented by the value it
  encodes: \<open>JSON.stringify\<close> and \<open>JSON.parse\<close> are not modelled, and \<open>deserializeTensor\<close> starts
  from the parsed payload.
\<close>

definition serializeTensor :: "Tensor \<Rightarrow> (TensorData, string) Result" where
  "serializeTensor tensor =
     (case createTensorData tensor of
        Error err \<Rightarrow> Error (''Failed to create TensorData '' @ err)
      | Ok tensorData \<Rightarrow> Ok tensorData)"

definition deserializeTensor ::
  "(string \<Rightarrow> real list \<Rightarrow> real \<times> real \<Rightarrow> (Tensor, string) Result) \<Rightarrow> TensorData \<Rightarrow>
   (Tensor, string) Result" where
  "deserializeTensor newTensor json =
     (case TensorDataSchema json of
        Error msg \<Rightarrow> Error msg
      | Ok tensorData \<Rightarrow>
          if \<not> checkTensorDataDimensions tensorData
          then Error ''Tensor data dimensions do not match''
          else tensorFromTensorData newTensor tensorData)"

section \<open>The chunk database (scripts/lib/chunk-database.ts, scripts/lib/finalized-chunk.ts)\<close>

text \<open>
  \<open>FinalizedChunkSchema.safeParse\<close> on a chunk-shaped value: \<open>totalTokens\<close> at least 0, \<open>id\<close> a
  version-4 UUID (\<open>uuidv4\<close> is Zod's format check) and the refinement.
\<close>

definition FinalizedChunkSchema ::
  "(string \<Rightarrow> bool) \<Rightarrow> FinalizedChunk \<Rightarrow> (FinalizedChunk, string) Result" where
  "FinalizedChunkSchema uuidv4 c =
     (if FinalizedChunk.totalTokens c < 0 then Error ''Too small: expected number to be >=0''
      else if \<not> uuidv4 (FinalizedChunk.id c) then Error ''Invalid UUID''
      else if \<not> (int (length (rawText c)) \<ge> FinalizedChunk.totalTokens c)
      then Error ''rawText.length should be >= totalTokens''
      else Ok c)"

record Metadata =
  embeddingModel :: string
  dimension :: real
  createdAt :: string

record ChunkDatabase =
  chunks :: "FinalizedChunk list"
  embeddings :: Tensor
  metadata :: Metadata

record SerializableChunkDatabase =
  chunks :: "FinalizedChunk list"
  embeddings :: TensorData
  metadata :: Metadata

definition chunkDatabaseFromSerializableChunkDatabase ::
  "(string \<Rightarrow> real list \<Rightarrow> real \<times> real \<Rightarrow> (Tensor, string) Result) \<Rightarrow>
   SerializableChunkDatabase \<Rightarrow> (ChunkDatabase, string) Result" where
  "chunkDatabaseFromSerializableChunkDatabase newTensor serializableChunkDatabase =
     (case tensorFromTensorData newTensor
             (SerializableChunkDatabase.embeddings serializableChunkDatabase) of
        Error err \<Rightarrow> Error (''Invalid embeddings: '' @ err)
      | Ok tensor \<Rightarrow>
          Ok \<lparr>ChunkDatabase.chunks = SerializableChunkDatabase.chunks serializableChunkDatabase,
              ChunkDatabase.embeddings = tensor,
              ChunkDatabase.metadata = SerializableChunkDatabase.metadata serializableChunkDatabase\<rparr>)"

text \<open>
  \<open>SerializableChunkDatabaseSchema.safeParse\<close>: every chunk passes \<open>FinalizedChunkSchema\<close> and
  the embeddings pass \<open>TensorDataSchema\<close>; the metadata fields are checked for their types
  only.
\<close>

definition SerializableChunkDatabaseSchema ::
  "(string \<Rightarrow> bool) \<Rightarrow> SerializableChunkDatabase \<Rightarrow> (SerializableChunkDatabase, string) Result" where
  "SerializableChunkDatabaseSchema uuidv4 d =
     (if \<not> list_all (\<lambda>c. isOk (FinalizedChunkSchema uuidv4 c)) (SerializableChunkDatabase.chunks d)
      then Error ''Invalid chunk''
      else case TensorDataSchema (SerializableChunkDatabase.embeddings d) of
             Error msg \<Rightarrow> Error msg
           | Ok td \<Rightarrow> Ok d)"

definition deserializeChunkDatabase ::
  "(string \<Rightarrow> bool) \<Rightarrow> (string \<Rightarrow> real list \<Rightarrow> real \<times> real \<Rightarrow> (Tensor, string) Result) \<Rightarrow>
   SerializableChunkDatabase \<Rightarrow> (ChunkDatabase, string) Result" where
  "deserializeChunkDatabase uuidv4 newTensor obj =
     (case SerializableChunkDatabaseSchema uuidv4 obj of
        Error msg \<Rightarrow> Error (''Invalid chunk database: '' @ msg)
      | Ok d \<Rightarrow> chunkDatabaseFromSerializableChunkDatabase newTensor d)"

text \<open>
  \<open>serializeChunkDatabase\<close>; as for tensors, the JSON text is represented by the value it
  encodes.
\<close>

definition serializeChunkDatabase :: "ChunkDatabase \<Rightarrow> (SerializableChunkDatabase, string) Result" where
  "serializeChunkDatabase db =
     (case createTensorData (ChunkDatabase.embeddings db) of
        Error err \<Rightarrow> Error (''Failed to serialize embeddings: '' @ err)
      | Ok tensorData \<Rightarrow>
          Ok \<lparr>SerializableChunkDatabase.chunks = ChunkDatabase.chunks db,
              SerializableChunkDatabase.embeddings = tensorData,
              SerializableChunkDatabase.metadata = ChunkDatabase.metadata db\<rparr>)"

text \<open>
  \<open>create\<close>. \<open>embedChunks\<close> is the awaited call \<open>embedChunks(featureExtractionPipeline, chunks)\<close>
  into the embedding model and \<open>now\<close> the timestamp \<open>new Date().toISOString()\<close>.
\<close>

definition ChunkDb_create ::
  "(FinalizedChunk list \<Rightarrow> Tensor) \<Rightarrow> string \<Rightarrow> FinalizedChunk list \<Rightarrow>
   (ChunkDatabase, string) Result" where
  "ChunkDb_create embedChunks now cs =
     (let embeddedChunks = embedChunks cs
      in if length (dims embeddedChunks) \<noteq> 2 then Error ''Invalid embeddings dimensions''
         else let numFeatures = dims embeddedChunks ! 0;
                  vectorLength = dims embeddedChunks ! 1
              in if numFeatures \<noteq> length cs
                 then Error ''Mismatch between number of features and chunks''
                 else if vectorLength = 0 then Error ''Invalid vector length''
                 else Ok \<lparr>ChunkDatabase.chunks = cs,
                          ChunkDatabase.embeddings = embeddedChunks,
                          ChunkDatabase.metadata = \<lparr>embeddingModel = MODEL_NAME,
                                      dimension = real vectorLength,
                                      createdAt = now\<rparr>\<rparr>)"

section \<open>Sample inputs\<close>

text \<open>A paragraph block and a heading block, for the worked examples below.\<close>

definition paragraphBlock :: "string \<Rightarrow> int \<Rightarrow> SemanticBlock" where
  "paragraphBlock txt n =
     \<lparr>SemanticBlock.type = ''paragraph'', SemanticBlock.text = txt, markdown = txt,
      tokens = n, headingLevel = 0\<rparr>"

definition headingBlock :: "nat \<Rightarrow> string \<Rightarrow> SemanticBlock" where
  "headingBlock lvl txt =
     \<lparr>SemanticBlock.type = ''heading'', SemanticBlock.text = txt, markdown = txt,
      tokens = 3, headingLevel = lvl\<rparr>"

text \<open>
  A stand-in for the library's \<open>Tensor\<close> constructor, for the worked examples: it copies its
  arguments into a tensor (an array of numbers becomes a \<open>Float32Array\<close>) and refuses
  dimensions that are not natural numbers or whose product is not the data's length.
\<close>

definition tensorConstructor :: "string \<Rightarrow> real list \<Rightarrow> real \<times> real \<Rightarrow> (Tensor, string) Result" where
  "tensorConstructor ty vs dm =
     (if fst dm = real (nat \<lfloor>fst dm\<rfloor>) \<and> snd dm = real (nat \<lfloor>snd dm\<rfloor>)
         \<and> real (length vs) = fst dm * snd dm
      then Ok \<lparr>Tensor.type = ty, Tensor.data = Float32Array vs,
               dims = [nat \<lfloor>fst dm\<rfloor>, nat \<lfloor>snd dm\<rfloor>]\<rparr>
      else Error ''Tensor size does not match data length'')"

text \<open>A database of one chunk with a unit-length embedding of dimension 2.\<close>

definition sampleChunk :: FinalizedChunk where
  "sampleChunk =
     \<lparr>headingPath = [''Usage''], FinalizedChunk.totalTokens = 3, rawText = ''# Usage'',
      markdownText = ''Usage'', work = ThePythonTutorial, title = ''Tutorial'',
      id = ''123e4567-e89b-42d3-a456-426614174000''\<rparr>"

definition sampleTensor :: Tensor where
  "sampleTensor = \<lparr>Tensor.type = ''float32'', Tensor.data = Float32Array [0.6, 0.8], dims = [1, 2]\<rparr>"

definition sampleDatabase :: ChunkDatabase where
  "sampleDatabase =
     \<lparr>ChunkDatabase.chunks = [sampleChunk],
      ChunkDatabase.embeddings = sampleTensor,
      ChunkDatabase.metadata = \<lparr>embeddingModel = MODEL_NAME, dimension = 2,
                                 createdAt = ''2025-01-01T00:00:00.000Z''\<rparr>\<rparr>"

section \<open>Coverage of a group of blocks by a chunk\<close>

text \<open>
  A chunk covers a group of blocks when the group is non-empty and the chunk's \<open>rawText\<close>
  ends with the texts of the group joined by blank lines (what \<open>finalizeChunk\<close> puts last).
\<close>

definition covers :: "SemanticBlock list \<Rightarrow> FinalizedChunk \<Rightarrow> bool" where
  "covers grp c = (grp \<noteq> [] \<and> suffix (join (NL @ NL) (map SemanticBlock.text grp)) (rawText c))"

section \<open>Token budgets\<close>

text \<open>
  C3 (as amended). The plain-text path's budgets are distinct from the markdown path's and
  strictly larger: \<open>TEXT_MAX_TOKENS = 256 > MAX_TOKENS = 200\<close> and
  \<open>TEXT_OVERLAP_TOKENS = 85 > OVERLAP_TOKENS = 20\<close>.
\<close>

theorem text_budgets_larger:
  "MAX_TOKENS < TEXT_MAX_TOKENS \<and> OVERLAP_TOKENS < TEXT_OVERLAP_TOKENS"
  by (simp add: MAX_TOKENS_def TEXT_MAX_TOKENS_def OVERLAP_TOKENS_def TEXT_OVERLAP_TOKENS_def)

text \<open>C3 as stated (both text budgets strictly smaller) is false.\<close>

theorem text_budgets_smaller_counterexample:
  "\<not> (TEXT_MAX_TOKENS < MAX_TOKENS \<and> TEXT_OVERLAP_TOKENS < OVERLAP_TOKENS)"
  by (simp add: MAX_TOKENS_def TEXT_MAX_TOKENS_def)

section \<open>Properties of the knee-point selection\<close>

lemma kneeStep_cases: "kneeStep scores i st = st \<or> snd (kneeStep scores i st) = i"
  by (simp add: kneeStep_def Let_def split: prod.splits)

lemma fold_kneeStep_index:
  "snd (fold (kneeStep scores) is st) = snd st \<or> snd (fold (kneeStep scores) is st) \<in> set is"
proof (induction "is" arbitrary: st)
  case Nil
  then show ?case by simp
next
  case (Cons i "is")
  from Cons.IH [of "kneeStep scores i st"] kneeStep_cases [of scores i st]
  show ?case by auto
qed

lemma findKneePoint_range:
  "findKneePoint scores = length scores \<or>
   (2 < length scores \<and> 1 \<le> findKneePoint scores \<and> findKneePoint scores \<le> length scores - 2)"
proof (cases "length scores \<le> 2")
  case True
  then show ?thesis by (simp add: findKneePoint_def)
next
  case False
  let ?n = "length scores"
  from fold_kneeStep_index [of scores "[1 ..< ?n - 1]" "(0, ?n)"] False
  show ?thesis
    by (auto simp: findKneePoint_def Let_def split: prod.splits)
qed

lemma findKneePoint_small: "length scores \<le> 2 \<Longrightarrow> findKneePoint scores = length scores"
  by (simp add: findKneePoint_def)

lemma length_sortIndexed: "length (sortIndexed scores) = length scores"
  by (simp add: sortIndexed_def)

lemma index_indexed:
  "map index (map (\<lambda>(index, score). \<lparr>index = index, score = score\<rparr>)
          (zip [0 ..< length scores] scores)) = [0 ..< length scores]"
proof -
  have "index \<circ> (\<lambda>(index, score). \<lparr>index = index, score = score\<rparr>) = fst"
    by (auto simp: fun_eq_iff)
  then show ?thesis by simp
qed

lemma map_index_sortIndexed_mset:
  "mset (map index (sortIndexed scores)) = mset [0 ..< length scores]"
  unfolding sortIndexed_def Let_def
  by (metis index_indexed mset_map mset_sort)

lemma distinct_index_sortIndexed: "distinct (map index (sortIndexed scores))"
  by (metis map_index_sortIndexed_mset distinct_upt mset_eq_imp_distinct_iff)

lemma set_index_sortIndexed: "set (map index (sortIndexed scores)) = {0 ..< length scores}"
  by (metis map_index_sortIndexed_mset mset_eq_setD atLeastLessThan_upt)

lemma score_sortIndexed:
  "item \<in> set (sortIndexed scores) \<Longrightarrow> scores ! index item = score item"
  by (auto simp: sortIndexed_def Let_def set_zip)

lemma sorted_sortIndexed: "sorted_wrt (\<lambda>a b. a \<ge> b) (map score (sortIndexed scores))"
proof -
  have "sorted (map (\<lambda>item. - score item) (sortIndexed scores))"
    by (simp add: sortIndexed_def)
  then show ?thesis
    by (simp add: sorted_wrt_map)
qed

lemma findBestResults_take:
  "findBestResults scores =
     take (findKneePoint (map score (sortIndexed scores))) (map index (sortIndexed scores))"
  by (simp add: findBestResults_def Let_def take_map)

lemma scores_of_findBestResults:
  "map ((!) scores) (findBestResults scores) =
     take (findKneePoint (map score (sortIndexed scores))) (map score (sortIndexed scores))"
proof -
  have "map ((!) scores) (map index (sortIndexed scores)) = map score (sortIndexed scores)"
    by (simp add: score_sortIndexed)
  then show ?thesis
    by (simp only: findBestResults_take take_map [symmetric])
qed

text \<open>
  C10. For a non-empty score array the knee cutoff (\<open>findKneePoint\<close> on the sorted scores) is
  at least 1: it is \<open>N\<close> when \<open>N \<le> 2\<close>, and an interior rank in \<open>[1, N - 2]\<close> or \<open>N\<close> when
  \<open>N > 2\<close>. \<open>findBestResults\<close> returns that many values, so a non-empty list; they are
  distinct valid indices into the input, in descending order of their scores.
\<close>

theorem findBestResults_nonempty:
  assumes "scores \<noteq> []"
  shows "(let n = length scores; cutoff = findKneePoint (map score (sortIndexed scores))
          in 1 \<le> cutoff
           \<and> (n \<le> 2 \<longrightarrow> cutoff = n)
           \<and> (2 < n \<longrightarrow> (1 \<le> cutoff \<and> cutoff \<le> n - 2) \<or> cutoff = n)
           \<and> length (findBestResults scores) = cutoff)
         \<and> findBestResults scores \<noteq> []
         \<and> distinct (findBestResults scores)
         \<and> (\<forall>i \<in> set (findBestResults scores). i < length scores)
         \<and> sorted_wrt (\<lambda>a b. a \<ge> b) (map ((!) scores) (findBestResults scores))"
proof -
  let ?ss = "map score (sortIndexed scores)"
  let ?c = "findKneePoint ?ss"
  have len: "length ?ss = length scores"
    by (simp add: length_sortIndexed)
  have pos: "0 < length scores"
    using assms by simp
  have range: "?c = length scores \<or> (2 < length scores \<and> 1 \<le> ?c \<and> ?c \<le> length scores - 2)"
    using findKneePoint_range [of ?ss] len by simp
  have small: "length scores \<le> 2 \<longrightarrow> ?c = length scores"
    using findKneePoint_small [of ?ss] len by simp
  have c1: "1 \<le> ?c"
    using range pos by (cases scores) auto
  have cn: "?c \<le> length scores"
    using range by auto
  have length: "length (findBestResults scores) = ?c"
    using cn by (simp add: findBestResults_take length_sortIndexed)
  have nonempty: "findBestResults scores \<noteq> []"
    using length c1 by auto
  have dist: "distinct (findBestResults scores)"
    unfolding findBestResults_take by (rule distinct_take [OF distinct_index_sortIndexed])
  have valid: "\<forall>i \<in> set (findBestResults scores). i < length scores"
  proof
    fix i
    assume "i \<in> set (findBestResults scores)"
    then have "i \<in> set (map index (sortIndexed scores))"
      unfolding findBestResults_take by (rule in_set_takeD)
    then show "i < length scores"
      by (simp only: set_index_sortIndexed atLeastLessThan_iff)
  qed
  have desc: "sorted_wrt (\<lambda>a b. a \<ge> b) (map ((!) scores) (findBestResults scores))"
    unfolding scores_of_findBestResults
    by (rule sorted_wrt_take [OF sorted_sortIndexed])
  show ?thesis
    using c1 small range length nonempty dist valid desc
    by (simp add: Let_def) blast
qed

theorem findBestResults_nonempty_witness:
  "[1, 2 :: real] \<noteq> [] \<and> length [1, 2 :: real] \<le> 2
   \<and> findKneePoint (map score (sortIndexed [1, 2])) = 2
   \<and> findBestResults [1, 2] = [1, 0]
   \<and> [3, 1, 2.9 :: real] \<noteq> [] \<and> 2 < length [3, 1, 2.9 :: real]
   \<and> findKneePoint (map score (sortIndexed [3, 1, 2.9])) = 1
   \<and> findBestResults [3, 1, 2.9] = [0]
   \<and> list_all (\<lambda>i. i < length [3, 1, 2.9 :: real]) (findBestResults [3, 1, 2.9])"
  using findBestResults_nonempty [of "[1, 2]"] findBestResults_nonempty [of "[3, 1, 2.9]"]
  by (simp add: findBestResults_def sortIndexed_def findKneePoint_def kneeStep_def
      perpendicularDistance_def Let_def power2_eq_square field_simps)

text \<open>
  C1 (as amended). For the scores \<open>[0.9, 0.85, 0.82, 0.3, 0.25, 0.2]\<close>, already in descending
  order, rank 2 (score 0.82) is the interior point farthest from the chord, so the cutoff is
  2 and \<open>findBestResults\<close> returns the indices of the top two scores, \<open>[0, 1]\<close>.
\<close>

theorem knee_example_cutoff_two:
  "map score (sortIndexed [0.9, 0.85, 0.82, 0.3, 0.25, 0.2]) = [0.9, 0.85, 0.82, 0.3, 0.25, 0.2]
   \<and> findKneePoint [0.9, 0.85, 0.82, 0.3, 0.25, 0.2] = 2
   \<and> findBestResults [0.9, 0.85, 0.82, 0.3, 0.25, 0.2] = [0, 1]"
  by (simp add: findBestResults_def sortIndexed_def findKneePoint_def kneeStep_def
      perpendicularDistance_def Let_def power2_eq_square field_simps)

text \<open>C1 as stated (cutoff 3, the top three indices) is false.\<close>

theorem knee_example_cutoff_three_counterexample:
  "\<not> (findKneePoint [0.9, 0.85, 0.82, 0.3, 0.25, 0.2] = 3
      \<and> findBestResults [0.9, 0.85, 0.82, 0.3, 0.25, 0.2] = [0, 1, 2])"
  by (simp add: findKneePoint_def kneeStep_def
      perpendicularDistance_def Let_def power2_eq_square field_simps)

section \<open>Overlap of the assembler\<close>

lemma overlapLoop_spec:
  "toks \<le> OVERLAP_TOKENS \<Longrightarrow>
   \<exists>taken rest.
     xs = taken @ rest
     \<and> overlapLoop xs overlap toks = rev taken @ overlap
     \<and> toks + sum_list (map tokens taken) \<le> OVERLAP_TOKENS
     \<and> (rest = [] \<or> toks + sum_list (map tokens taken) + tokens (hd rest) > OVERLAP_TOKENS)"
proof (induction xs arbitrary: overlap toks)
  case Nil
  then show ?case by simp
next
  case (Cons block xs)
  show ?case
  proof (cases "toks + tokens block \<le> OVERLAP_TOKENS")
    case True
    from Cons.IH [OF True, of "block # overlap"]
    obtain taken rest where
      "xs = taken @ rest"
      "overlapLoop xs (block # overlap) (toks + tokens block) = rev taken @ block # overlap"
      "toks + tokens block + sum_list (map tokens taken) \<le> OVERLAP_TOKENS"
      "rest = [] \<or> toks + tokens block + sum_list (map tokens taken) + tokens (hd rest) > OVERLAP_TOKENS"
      by blast
    with True show ?thesis
      by (intro exI [of _ "block # taken"] exI [of _ rest]) (simp add: add.assoc)
  next
    case False
    with Cons.prems show ?thesis
      by (intro exI [of _ "[]"] exI [of _ "block # xs"]) simp
  qed
qed

lemma calculateOverlap_spec:
  "\<exists>pre. blocks = pre @ calculateOverlap blocks
     \<and> sum_list (map tokens (calculateOverlap blocks)) \<le> OVERLAP_TOKENS
     \<and> (pre = [] \<or>
          sum_list (map tokens (calculateOverlap blocks)) + tokens (last pre) > OVERLAP_TOKENS)"
proof -
  have "(0::int) \<le> OVERLAP_TOKENS"
    by (simp add: OVERLAP_TOKENS_def)
  from overlapLoop_spec [OF this, of "rev blocks" "[]"]
  obtain taken rest where tr:
    "rev blocks = taken @ rest"
    "overlapLoop (rev blocks) [] 0 = rev taken @ []"
    "0 + sum_list (map tokens taken) \<le> OVERLAP_TOKENS"
    "rest = [] \<or> 0 + sum_list (map tokens taken) + tokens (hd rest) > OVERLAP_TOKENS"
    by blast
  have ov: "calculateOverlap blocks = rev taken"
    using tr(2) by (simp add: calculateOverlap_def)
  have blocks: "blocks = rev rest @ rev taken"
    using tr(1) by (metis rev_append rev_rev_ident)
  have sum: "sum_list (map tokens (rev taken)) = sum_list (map tokens taken)"
    by (simp add: rev_map [symmetric])
  have last: "rest \<noteq> [] \<Longrightarrow> last (rev rest) = hd rest"
    by (simp add: last_rev)
  show ?thesis
  proof (cases "rest = []")
    case True
    with tr(3) blocks sum show ?thesis
      unfolding ov by (intro exI [of _ "[]"]) simp
  next
    case False
    with tr(3,4) blocks sum last show ?thesis
      unfolding ov by (intro exI [of _ "rev rest"]) simp
  qed
qed

lemma calculateOverlap_last_too_big:
  assumes "blocks \<noteq> []" and "tokens (last blocks) > OVERLAP_TOKENS"
  shows "calculateOverlap blocks = []"
proof -
  from assms(1) obtain bs b where "blocks = bs @ [b]"
    by (metis rev_exhaust)
  with assms(2) show ?thesis
    by (simp add: calculateOverlap_def)
qed

text \<open>
  C4. The overlap that \<open>calculateOverlap\<close> computes is a contiguous suffix of whole blocks of
  the finalized buffer, its token counts sum to at most \<open>OVERLAP_TOKENS\<close>, and it is taken
  greedily from the end: either it is the whole buffer, or the block just before it would
  overshoot. If the last block alone exceeds \<open>OVERLAP_TOKENS\<close>, the overlap is empty.
  (This holds for any integer token counts, non-negative ones in particular.)
\<close>

theorem calculateOverlap_greedy_suffix:
  "(\<exists>pre. blocks = pre @ calculateOverlap blocks
      \<and> sum_list (map tokens (calculateOverlap blocks)) \<le> OVERLAP_TOKENS
      \<and> (pre = [] \<or>
           sum_list (map tokens (calculateOverlap blocks)) + tokens (last pre) > OVERLAP_TOKENS))
   \<and> (blocks \<noteq> [] \<and> tokens (last blocks) > OVERLAP_TOKENS \<longrightarrow> calculateOverlap blocks = [])"
  using calculateOverlap_spec [of blocks] calculateOverlap_last_too_big [of blocks]
  by blast

theorem calculateOverlap_greedy_suffix_witness:
  "([paragraphBlock ''a'' 15, paragraphBlock ''b'' 25] \<noteq> []
    \<and> tokens (last [paragraphBlock ''a'' 15, paragraphBlock ''b'' 25]) > OVERLAP_TOKENS)
   \<and> calculateOverlap [paragraphBlock ''a'' 15, paragraphBlock ''b'' 25] = []
   \<and> calculateOverlap [paragraphBlock ''a'' 15, paragraphBlock ''b'' 10, paragraphBlock ''c'' 5]
       = [paragraphBlock ''b'' 10, paragraphBlock ''c'' 5]
   \<and> sum_list (map tokens [paragraphBlock ''b'' 10, paragraphBlock ''c'' 5]) \<le> OVERLAP_TOKENS
   \<and> sum_list (map tokens [paragraphBlock ''b'' 10, paragraphBlock ''c'' 5])
         + tokens (paragraphBlock ''a'' 15) > OVERLAP_TOKENS"
  using calculateOverlap_greedy_suffix [of "[paragraphBlock ''a'' 15, paragraphBlock ''b'' 25]"]
    calculateOverlap_greedy_suffix
      [of "[paragraphBlock ''a'' 15, paragraphBlock ''b'' 10, paragraphBlock ''c'' 5]"]
  by (simp add: calculateOverlap_def paragraphBlock_def OVERLAP_TOKENS_def)

section \<open>The heading stack\<close>

lemma popDeeper_items:
  "items (popDeeper headings lvl) =
     rev (dropWhile (\<lambda>d. level d \<ge> lvl) (rev (items headings)))"
proof (induction headings lvl rule: popDeeper.induct)
  case (1 headings lvl)
  show ?case
  proof (cases "items headings = []")
    case True
    then show ?thesis
      by (subst popDeeper.simps) (simp add: Stack_peek_def)
  next
    case False
    then obtain ds d where ds: "items headings = ds @ [d]"
      by (metis rev_exhaust)
    then have peek: "Stack_peek headings = Some d"
      by (simp add: Stack_peek_def)
    show ?thesis
    proof (cases "level d \<ge> lvl")
      case True
      have pop: "items (snd (Stack_pop headings)) = ds"
        using ds by (simp add: Stack_pop_def Let_def)
      have "items (popDeeper headings lvl) = items (popDeeper (snd (Stack_pop headings)) lvl)"
        using peek True by (subst popDeeper.simps) simp
      also have "\<dots> = rev (dropWhile (\<lambda>d. level d \<ge> lvl) (rev ds))"
        using "1.IH" [OF peek True] pop by simp
      finally show ?thesis
        using ds True by simp
    next
      case False
      have "popDeeper headings lvl = headings"
        using peek False by (subst popDeeper.simps) simp
      then show ?thesis
        using ds False by simp
    qed
  qed
qed

lemma dropWhile_deeper_sorted:
  "sorted_wrt (<) (map level ds) \<Longrightarrow>
   rev (dropWhile (\<lambda>d. level d \<ge> lvl) (rev ds)) = filter (\<lambda>d. level d < lvl) ds"
proof (induction ds rule: rev_induct)
  case Nil
  then show ?case by simp
next
  case (snoc d ds)
  from snoc.prems have sorted: "sorted_wrt (<) (map level ds)"
    and below: "\<forall>e \<in> set ds. level e < level d"
    by (auto simp: sorted_wrt_append)
  show ?case
  proof (cases "level d \<ge> lvl")
    case True
    with snoc.IH [OF sorted] show ?thesis by simp
  next
    case False
    with below have "filter (\<lambda>e. level e < lvl) ds = ds"
      by (auto intro!: filter_True)
    with False show ?thesis by simp
  qed
qed

lemma updateHeadingStack_sorted_items:
  assumes "sorted_wrt (<) (map level (items headings))"
  shows "items (updateHeadingStack headings heading) =
           filter (\<lambda>d. level d < headingLevel heading) (items headings)
           @ [\<lparr>HeadingDatum.text = SemanticBlock.text heading, level = headingLevel heading\<rparr>]"
  using dropWhile_deeper_sorted [OF assms]
  by (simp add: updateHeadingStack_def Stack_push_def popDeeper_items)

lemma updateHeadingStack_keeps_sorted:
  assumes "sorted_wrt (<) (map level (items headings))"
  shows "sorted_wrt (<) (map level (items (updateHeadingStack headings heading)))"
proof -
  have "sorted_wrt (<) (map level (filter (\<lambda>d. level d < headingLevel heading) (items headings)))"
    using assms by (simp add: sorted_wrt_map sorted_wrt_filter)
  then show ?thesis
    unfolding updateHeadingStack_sorted_items [OF assms]
    by (simp add: sorted_wrt_append)
qed

lemma chunkStep_headingStack:
  "headingStack (chunkStep countTokens randomUUID wrk ttl st block) =
     (if isHeading block then updateHeadingStack (headingStack st) block else headingStack st)"
  by (simp add: chunkStep_def Let_def)

lemma chunkLoop_snoc:
  "chunkLoop countTokens randomUUID wrk ttl (blocks @ [block]) =
     chunkStep countTokens randomUUID wrk ttl (chunkLoop countTokens randomUUID wrk ttl blocks) block"
  by (simp add: chunkLoop_def)

lemma chunkLoop_headingStack_sorted:
  "sorted_wrt (<) (map level (items (headingStack (chunkLoop countTokens randomUUID wrk ttl blocks))))"
proof (induction blocks rule: rev_induct)
  case Nil
  then show ?case
    by (simp add: chunkLoop_def chunkerInit_def Stack_create_def)
next
  case (snoc block blocks)
  then show ?case
    by (simp add: chunkLoop_snoc chunkStep_headingStack updateHeadingStack_keeps_sorted)
qed

lemma chunkLoop_heading_example:
  "map HeadingDatum.text (items (headingStack (chunkLoop countTokens randomUUID wrk ttl
     [headingBlock 1 ''Intro'', headingBlock 2 ''Setup'', headingBlock 1 ''Usage''])))
   = [''Usage'']"
  by (simp add: chunkLoop_def chunkerInit_def chunkStep_headingStack isHeading_def headingBlock_def
      updateHeadingStack_def Stack_push_def Stack_create_def popDeeper_items)

text \<open>
  C5. On a heading block the assembler replaces its heading stack by
  \<open>updateHeadingStack\<close>, which pops from the top while the top entry's level is at least the
  new heading's and then pushes the new heading. On a stack whose levels increase strictly
  from bottom to top this removes every entry whose level is at least the new heading's, and
  the result again increases strictly. The assembler starts from the empty stack, so after
  any sequence of blocks its stack's levels increase strictly from bottom to top; and after
  H1 "Intro", H2 "Setup", H1 "Usage" the stack is exactly ["Usage"].
\<close>

theorem heading_stack_strictly_increasing:
  "(isHeading block \<longrightarrow>
      headingStack (chunkStep countTokens randomUUID wrk ttl st block)
        = updateHeadingStack (headingStack st) block)
   \<and> (sorted_wrt (<) (map level (items headings)) \<longrightarrow>
        items (updateHeadingStack headings heading) =
          filter (\<lambda>d. level d < headingLevel heading) (items headings)
          @ [\<lparr>HeadingDatum.text = SemanticBlock.text heading, level = headingLevel heading\<rparr>]
        \<and> sorted_wrt (<) (map level (items (updateHeadingStack headings heading))))
   \<and> sorted_wrt (<)
        (map level (items (headingStack (chunkLoop countTokens randomUUID wrk ttl blocks))))
   \<and> map HeadingDatum.text (items (headingStack (chunkLoop countTokens randomUUID wrk ttl
        [headingBlock 1 ''Intro'', headingBlock 2 ''Setup'', headingBlock 1 ''Usage''])))
      = [''Usage'']"
  using updateHeadingStack_sorted_items [of headings heading]
    updateHeadingStack_keeps_sorted [of headings heading]
    chunkLoop_headingStack_sorted [of countTokens randomUUID wrk ttl blocks]
    chunkLoop_heading_example [of countTokens randomUUID wrk ttl]
  by (simp add: chunkStep_headingStack)

theorem heading_stack_strictly_increasing_witness:
  "isHeading (headingBlock 1 ''Usage'')
   \<and> sorted_wrt (<) (map level (items \<lparr>items =
        [\<lparr>HeadingDatum.text = ''Intro'', level = 1\<rparr>, \<lparr>HeadingDatum.text = ''Setup'', level = 2\<rparr>]\<rparr>))
   \<and> items (updateHeadingStack \<lparr>items =
        [\<lparr>HeadingDatum.text = ''Intro'', level = 1\<rparr>, \<lparr>HeadingDatum.text = ''Setup'', level = 2\<rparr>]\<rparr>
        (headingBlock 1 ''Usage''))
      = [\<lparr>HeadingDatum.text = ''Usage'', level = 1\<rparr>]"
  using heading_stack_strictly_increasing [of "headingBlock 1 ''Usage''" _ _ _ _ _
    "\<lparr>items = [\<lparr>HeadingDatum.text = ''Intro'', level = 1\<rparr>, \<lparr>HeadingDatum.text = ''Setup'', level = 2\<rparr>]\<rparr>"
    "headingBlock 1 ''Usage''"]
  by (simp add: isHeading_def headingBlock_def)

section \<open>Overlap of the plain-text path\<close>

lemma overlapChunksLoop_prepends:
  "\<exists>pc pt. overlapChunksLoop bc target k (acc, oc, otc) = (acc + sum_list pt, pc @ oc, pt @ otc)
     \<and> length pc = length pt
     \<and> suffix pc (take k (BasicChunk.chunks bc))
     \<and> suffix pt (take k (tokenCounts bc))"
  if "k \<le> length (BasicChunk.chunks bc)" "length (tokenCounts bc) = length (BasicChunk.chunks bc)"
  using that
proof (induction k arbitrary: acc oc otc)
  case 0
  then show ?case by simp
next
  case (Suc i)
  let ?new = "tokenCounts bc ! i"
  let ?c = "BasicChunk.chunks bc ! i"
  show ?case
  proof (cases "acc > 0 \<and> acc + ?new > target")
    case True
    then show ?thesis
      by (intro exI [of _ "[]"]) simp
  next
    case False
    from Suc.prems have i: "i \<le> length (BasicChunk.chunks bc)" "i < length (BasicChunk.chunks bc)"
      "i < length (tokenCounts bc)"
      by simp_all
    from Suc.IH [OF i(1) Suc.prems(2), of "acc + ?new" "?c # oc" "?new # otc"]
    obtain pc pt where ih:
      "overlapChunksLoop bc target i (acc + ?new, ?c # oc, ?new # otc)
         = (acc + ?new + sum_list pt, pc @ ?c # oc, pt @ ?new # otc)"
      "length pc = length pt"
      "suffix pc (take i (BasicChunk.chunks bc))"
      "suffix pt (take i (tokenCounts bc))"
      by blast
    have tc: "take (Suc i) (BasicChunk.chunks bc) = take i (BasicChunk.chunks bc) @ [?c]"
      using i(2) by (simp add: take_Suc_conv_app_nth)
    have tt: "take (Suc i) (tokenCounts bc) = take i (tokenCounts bc) @ [?new]"
      using i(3) by (simp add: take_Suc_conv_app_nth)
    have pc: "suffix (pc @ [?c]) (take (Suc i) (BasicChunk.chunks bc))"
      unfolding tc using ih(3) by simp
    have pt: "suffix (pt @ [?new]) (take (Suc i) (tokenCounts bc))"
      unfolding tt using ih(4) by simp
    have step: "overlapChunksLoop bc target (Suc i) (acc, oc, otc)
                  = (acc + sum_list (pt @ [?new]), (pc @ [?c]) @ oc, (pt @ [?new]) @ otc)"
      using False ih(1) by (simp add: Let_def)
    have len: "length (pc @ [?c]) = length (pt @ [?new])"
      using ih(2) by simp
    from step len pc pt show ?thesis
      by blast
  qed
qed

lemma overlapChunksLoop_first:
  assumes "BasicChunk.chunks bc \<noteq> []"
    and "length (tokenCounts bc) = length (BasicChunk.chunks bc)"
  shows "\<exists>pc pt. overlapChunksLoop bc target (length (BasicChunk.chunks bc)) (0, [], [])
           = (sum_list pt + last (tokenCounts bc),
              pc @ [last (BasicChunk.chunks bc)], pt @ [last (tokenCounts bc)])
         \<and> length pc = length pt
         \<and> suffix (pc @ [last (BasicChunk.chunks bc)]) (BasicChunk.chunks bc)
         \<and> suffix (pt @ [last (tokenCounts bc)]) (tokenCounts bc)"
proof -
  from assms(1) obtain i where n: "length (BasicChunk.chunks bc) = Suc i"
    by (cases "BasicChunk.chunks bc") auto
  have lc: "last (BasicChunk.chunks bc) = BasicChunk.chunks bc ! i"
    using assms(1) n by (simp add: last_conv_nth)
  have lt: "last (tokenCounts bc) = tokenCounts bc ! i"
    using assms n by (metis diff_Suc_1 last_conv_nth length_0_conv)
  have cs: "BasicChunk.chunks bc = take i (BasicChunk.chunks bc) @ [BasicChunk.chunks bc ! i]"
    using n by (metis lessI order_refl take_Suc_conv_app_nth take_all)
  have ts: "tokenCounts bc = take i (tokenCounts bc) @ [tokenCounts bc ! i]"
    using n assms(2) by (metis lessI order_refl take_Suc_conv_app_nth take_all)
  have "i \<le> length (BasicChunk.chunks bc)"
    using n by simp
  from overlapChunksLoop_prepends [OF this assms(2),
      of target "0 + tokenCounts bc ! i" "[BasicChunk.chunks bc ! i]" "[tokenCounts bc ! i]"]
  obtain pc pt where ih:
    "overlapChunksLoop bc target i
       (0 + tokenCounts bc ! i, [BasicChunk.chunks bc ! i], [tokenCounts bc ! i])
     = (0 + tokenCounts bc ! i + sum_list pt, pc @ [BasicChunk.chunks bc ! i],
        pt @ [tokenCounts bc ! i])"
    "length pc = length pt"
    "suffix pc (take i (BasicChunk.chunks bc))"
    "suffix pt (take i (tokenCounts bc))"
    by blast
  have step: "overlapChunksLoop bc target (length (BasicChunk.chunks bc)) (0, [], [])
     = (sum_list pt + last (tokenCounts bc),
        pc @ [last (BasicChunk.chunks bc)], pt @ [last (tokenCounts bc)])"
    unfolding n lc lt using ih(1) by (simp add: Let_def)
  have sc: "suffix (pc @ [last (BasicChunk.chunks bc)]) (BasicChunk.chunks bc)"
    unfolding lc by (subst (2) cs) (use ih(3) in simp)
  have st: "suffix (pt @ [last (tokenCounts bc)]) (tokenCounts bc)"
    unfolding lt by (subst (2) ts) (use ih(4) in simp)
  from step ih(2) sc st show ?thesis
    by blast
qed

lemma overlapChunksLoop_stops:
  assumes "0 < acc" and "target < acc" and "k \<le> length (tokenCounts bc)"
    and "\<forall>n \<in> set (tokenCounts bc). 0 \<le> n"
  shows "overlapChunksLoop bc target k (acc, oc, otc) = (acc, oc, otc)"
proof (cases k)
  case 0
  then show ?thesis by simp
next
  case (Suc i)
  with assms(3) have "tokenCounts bc ! i \<in> set (tokenCounts bc)"
    by simp
  with assms(4) have "0 \<le> tokenCounts bc ! i"
    by blast
  with assms(1,2) Suc show ?thesis
    by (simp add: Let_def)
qed

lemma getOverlapChunks_last_only:
  assumes "BasicChunk.chunks bc \<noteq> []"
    and "length (tokenCounts bc) = length (BasicChunk.chunks bc)"
    and "0 \<le> target" and "target < last (tokenCounts bc)"
    and "\<forall>n \<in> set (tokenCounts bc). 0 \<le> n"
  shows "getOverlapChunks bc target =
           \<lparr>BasicChunk.chunks = [last (BasicChunk.chunks bc)], tokenCounts = [last (tokenCounts bc)],
            totalTokens = last (tokenCounts bc)\<rparr>"
proof -
  from assms(1) obtain i where n: "length (BasicChunk.chunks bc) = Suc i"
    by (cases "BasicChunk.chunks bc") auto
  have lc: "last (BasicChunk.chunks bc) = BasicChunk.chunks bc ! i"
    using assms(1) n by (simp add: last_conv_nth)
  have lt: "last (tokenCounts bc) = tokenCounts bc ! i"
    using assms n by (metis diff_Suc_1 last_conv_nth length_0_conv)
  have "0 < tokenCounts bc ! i" "target < tokenCounts bc ! i" "i \<le> length (tokenCounts bc)"
    using assms(2,3,4) n lt by simp_all
  from overlapChunksLoop_stops [OF this assms(5)]
  have "overlapChunksLoop bc target i
          (tokenCounts bc ! i, [BasicChunk.chunks bc ! i], [tokenCounts bc ! i])
        = (tokenCounts bc ! i, [BasicChunk.chunks bc ! i], [tokenCounts bc ! i])" .
  then show ?thesis
    unfolding getOverlapChunks_def n lc lt by (simp add: Let_def)
qed

text \<open>
  C9. For a \<open>BasicChunk\<close> with at least one segment (and its parallel arrays of one length),
  \<open>getOverlapChunks\<close> returns a non-empty trailing run of the segments that ends with the
  source's last segment, whatever the target. When the last segment's token count alone
  exceeds the target (token counts non-negative, target non-negative), the overlap is exactly
  that one segment and its total exceeds the target. The assembler's \<open>calculateOverlap\<close>
  returns the empty overlap in the like situation.
\<close>

theorem getOverlapChunks_takes_last_segment:
  assumes "BasicChunk.chunks bc \<noteq> []"
    and "length (tokenCounts bc) = length (BasicChunk.chunks bc)"
  shows "BasicChunk.chunks (getOverlapChunks bc target) \<noteq> []
     \<and> last (BasicChunk.chunks (getOverlapChunks bc target)) = last (BasicChunk.chunks bc)
     \<and> suffix (BasicChunk.chunks (getOverlapChunks bc target)) (BasicChunk.chunks bc)
     \<and> suffix (tokenCounts (getOverlapChunks bc target)) (tokenCounts bc)
     \<and> length (tokenCounts (getOverlapChunks bc target))
         = length (BasicChunk.chunks (getOverlapChunks bc target))
     \<and> BasicChunk.totalTokens (getOverlapChunks bc target)
         = sum_list (tokenCounts (getOverlapChunks bc target))
     \<and> (0 \<le> target \<and> target < last (tokenCounts bc) \<and> (\<forall>n \<in> set (tokenCounts bc). 0 \<le> n) \<longrightarrow>
          BasicChunk.chunks (getOverlapChunks bc target) = [last (BasicChunk.chunks bc)]
          \<and> target < BasicChunk.totalTokens (getOverlapChunks bc target))
     \<and> (blocks \<noteq> [] \<and> tokens (last blocks) > OVERLAP_TOKENS \<longrightarrow> calculateOverlap blocks = [])"
proof -
  from overlapChunksLoop_first [OF assms, of target]
  obtain pc pt where l:
    "overlapChunksLoop bc target (length (BasicChunk.chunks bc)) (0, [], [])
       = (sum_list pt + last (tokenCounts bc),
          pc @ [last (BasicChunk.chunks bc)], pt @ [last (tokenCounts bc)])"
    "length pc = length pt"
    "suffix (pc @ [last (BasicChunk.chunks bc)]) (BasicChunk.chunks bc)"
    "suffix (pt @ [last (tokenCounts bc)]) (tokenCounts bc)"
    by blast
  have r: "getOverlapChunks bc target =
             \<lparr>BasicChunk.chunks = pc @ [last (BasicChunk.chunks bc)],
              tokenCounts = pt @ [last (tokenCounts bc)],
              totalTokens = sum_list pt + last (tokenCounts bc)\<rparr>"
    unfolding getOverlapChunks_def l(1) by simp
  have general: "BasicChunk.chunks (getOverlapChunks bc target) \<noteq> []
     \<and> last (BasicChunk.chunks (getOverlapChunks bc target)) = last (BasicChunk.chunks bc)
     \<and> suffix (BasicChunk.chunks (getOverlapChunks bc target)) (BasicChunk.chunks bc)
     \<and> suffix (tokenCounts (getOverlapChunks bc target)) (tokenCounts bc)
     \<and> length (tokenCounts (getOverlapChunks bc target))
         = length (BasicChunk.chunks (getOverlapChunks bc target))
     \<and> BasicChunk.totalTokens (getOverlapChunks bc target)
         = sum_list (tokenCounts (getOverlapChunks bc target))"
    unfolding r using l(2,3,4) by simp
  have exceed: "0 \<le> target \<and> target < last (tokenCounts bc) \<and> (\<forall>n \<in> set (tokenCounts bc). 0 \<le> n) \<longrightarrow>
          BasicChunk.chunks (getOverlapChunks bc target) = [last (BasicChunk.chunks bc)]
          \<and> target < BasicChunk.totalTokens (getOverlapChunks bc target)"
    using getOverlapChunks_last_only [OF assms, of target] by simp
  have assembler: "blocks \<noteq> [] \<and> tokens (last blocks) > OVERLAP_TOKENS \<longrightarrow> calculateOverlap blocks = []"
    using calculateOverlap_last_too_big [of blocks] by blast
  from general exceed assembler show ?thesis
    by blast
qed

theorem getOverlapChunks_takes_last_segment_witness:
  "BasicChunk.chunks \<lparr>BasicChunk.chunks = [''a'', ''b''], tokenCounts = [50, 100], totalTokens = 150\<rparr> \<noteq> []
   \<and> length (tokenCounts \<lparr>BasicChunk.chunks = [''a'', ''b''], tokenCounts = [50, 100], totalTokens = 150\<rparr>)
       = length (BasicChunk.chunks \<lparr>BasicChunk.chunks = [''a'', ''b''], tokenCounts = [50, 100], totalTokens = 150\<rparr>)
   \<and> (0::int) \<le> TEXT_OVERLAP_TOKENS
   \<and> TEXT_OVERLAP_TOKENS < last [50, 100]
   \<and> list_all (\<lambda>n. (0::int) \<le> n) [50, 100]
   \<and> BasicChunk.chunks
        (getOverlapChunks \<lparr>BasicChunk.chunks = [''a'', ''b''], tokenCounts = [50, 100], totalTokens = 150\<rparr>
           TEXT_OVERLAP_TOKENS) = [''b'']
   \<and> TEXT_OVERLAP_TOKENS < BasicChunk.totalTokens
        (getOverlapChunks \<lparr>BasicChunk.chunks = [''a'', ''b''], tokenCounts = [50, 100], totalTokens = 150\<rparr>
           TEXT_OVERLAP_TOKENS)
   \<and> [paragraphBlock ''a'' 5, paragraphBlock ''b'' 100] \<noteq> []
   \<and> tokens (last [paragraphBlock ''a'' 5, paragraphBlock ''b'' 100]) > OVERLAP_TOKENS
   \<and> calculateOverlap [paragraphBlock ''a'' 5, paragraphBlock ''b'' 100] = []"
  using getOverlapChunks_takes_last_segment
    [of "\<lparr>BasicChunk.chunks = [''a'', ''b''], tokenCounts = [50, 100], totalTokens = 150\<rparr>"
        TEXT_OVERLAP_TOKENS "[paragraphBlock ''a'' 5, paragraphBlock ''b'' 100]"]
  by (simp add: TEXT_OVERLAP_TOKENS_def OVERLAP_TOKENS_def paragraphBlock_def)

section \<open>No block dropped\<close>

lemma join_Cons_nonempty: "ss \<noteq> [] \<Longrightarrow> join sep (s # ss) = s @ sep @ join sep ss"
  by (cases ss) simp_all

lemma join_snoc_suffix: "suffix s (join sep (ss @ [s]))"
proof (induction ss)
  case Nil
  then show ?case by simp
next
  case (Cons a ss)
  have "join sep ((a # ss) @ [s]) = a @ sep @ join sep (ss @ [s])"
    by (simp add: join_Cons_nonempty)
  with Cons show ?case
    by (simp add: suffix_appendI)
qed

lemma finalizeChunk_rawText_suffix:
  "suffix (join (NL @ NL) (map SemanticBlock.text blocks))
     (rawText (finalizeChunk countTokens uuid blocks ov headings wrk ttl))"
proof -
  have "\<exists>parts. rawText (finalizeChunk countTokens uuid blocks ov headings wrk ttl)
          = join (NL @ NL) (parts @ [join (NL @ NL) (map SemanticBlock.text blocks)])"
    unfolding finalizeChunk_def Let_def
    by (metis FinalizedChunk.select_convs(3) append.assoc)
  then show ?thesis
    by (auto simp: join_snoc_suffix)
qed

lemma chunkLoop_covers:
  "\<exists>groups. concat groups @ currentBlocks (chunkLoop countTokens randomUUID wrk ttl blocks) = blocks
     \<and> list_all2 covers groups (ChunkerState.chunks (chunkLoop countTokens randomUUID wrk ttl blocks))"
proof (induction blocks rule: rev_induct)
  case Nil
  then show ?case
    by (simp add: chunkLoop_def chunkerInit_def)
next
  case (snoc block blocks)
  let ?st = "chunkLoop countTokens randomUUID wrk ttl blocks"
  let ?st' = "chunkStep countTokens randomUUID wrk ttl ?st block"
  from snoc obtain groups where g:
    "concat groups @ currentBlocks ?st = blocks"
    "list_all2 covers groups (ChunkerState.chunks ?st)"
    by blast
  have "\<exists>groups'. concat groups' @ currentBlocks ?st' = blocks @ [block]
     \<and> list_all2 covers groups' (ChunkerState.chunks ?st')"
  proof (cases "length (currentBlocks ?st) > 0 \<and>
      foldl (\<lambda>sum b. sum + tokens b) 0 (currentBlocks ?st) + tokens block > MAX_TOKENS")
    case True
    then have cur: "currentBlocks ?st' = [block]"
      and chs: "\<exists>c. ChunkerState.chunks ?st' = ChunkerState.chunks ?st @ [c] \<and> covers (currentBlocks ?st) c"
      by (auto simp: chunkStep_def Let_def covers_def finalizeChunk_rawText_suffix)
    from chs obtain c where c: "ChunkerState.chunks ?st' = ChunkerState.chunks ?st @ [c]"
      "covers (currentBlocks ?st) c"
      by blast
    have "list_all2 covers (groups @ [currentBlocks ?st]) (ChunkerState.chunks ?st')"
      unfolding c(1) using g(2) c(2) by (simp add: list_all2_appendI)
    moreover have "concat (groups @ [currentBlocks ?st]) @ currentBlocks ?st' = blocks @ [block]"
      using g(1) cur by simp
    ultimately show ?thesis
      by blast
  next
    case False
    then have "currentBlocks ?st' = currentBlocks ?st @ [block]"
      and "ChunkerState.chunks ?st' = ChunkerState.chunks ?st"
      by (auto simp: chunkStep_def Let_def)
    with g show ?thesis
      by (intro exI [of _ groups]) simp
  qed
  then show ?case
    by (simp only: chunkLoop_snoc)
qed

lemma chunkWithContext_drops_no_block:
  "\<exists>groups. concat groups = blocks
     \<and> list_all2 covers groups (chunkWithContext countTokens randomUUID blocks wrk ttl)"
proof -
  let ?st = "chunkLoop countTokens randomUUID wrk ttl blocks"
  from chunkLoop_covers [of countTokens randomUUID wrk ttl blocks] obtain groups where g:
    "concat groups @ currentBlocks ?st = blocks"
    "list_all2 covers groups (ChunkerState.chunks ?st)"
    by blast
  show ?thesis
  proof (cases "currentBlocks ?st = []")
    case True
    with g show ?thesis
      by (intro exI [of _ groups]) (simp add: chunkWithContext_def Let_def)
  next
    case False
    then have "covers (currentBlocks ?st)
        (finalizeChunk countTokens (randomUUID (length (ChunkerState.chunks ?st)))
           (currentBlocks ?st) (overlapBlocks ?st) (headingStack ?st) wrk ttl)"
      by (simp add: covers_def finalizeChunk_rawText_suffix)
    with g False show ?thesis
      by (intro exI [of _ "groups @ [currentBlocks ?st]"])
         (simp add: chunkWithContext_def Let_def list_all2_appendI)
  qed
qed

text \<open>
  The plain-text path: after the loop of \<open>processDocument\<close> the buffer \<open>current\<close> holds at
  least the last segment, and the function returns without finalizing it.
\<close>

lemma documentStep_buffer:
  "BasicChunk.chunks (snd (documentStep countTokens randomUUID wrk ttl st txt)) \<noteq> []
   \<and> last (BasicChunk.chunks (snd (documentStep countTokens randomUUID wrk ttl st txt))) = txt"
  by (simp add: documentStep_def Let_def split: prod.splits)

lemma processDocument_leaves_buffer:
  assumes "texts \<noteq> []"
  shows "BasicChunk.chunks (snd (foldl (documentStep countTokens randomUUID wrk ttl)
           ([], emptyBasicChunk) texts)) \<noteq> []
       \<and> last (BasicChunk.chunks (snd (foldl (documentStep countTokens randomUUID wrk ttl)
           ([], emptyBasicChunk) texts))) = last texts"
proof -
  from assms obtain ts seg where "texts = ts @ [seg]"
    by (metis rev_exhaust)
  then show ?thesis
    by (simp add: documentStep_buffer)
qed

lemma documentStep_below_budget:
  assumes "BasicChunk.totalTokens current + countTokens txt < TEXT_MAX_TOKENS"
  shows "documentStep countTokens randomUUID wrk ttl (cs, current) txt =
           (cs, \<lparr>BasicChunk.chunks = BasicChunk.chunks current @ [txt],
                 tokenCounts = tokenCounts current @ [countTokens txt],
                 totalTokens = BasicChunk.totalTokens current + countTokens txt\<rparr>)"
  using assms by (simp add: documentStep_def Let_def)

text \<open>
  C2, at the failing input. A plain-text document with the single segment "hello" (5 tokens
  here, below \<open>TEXT_MAX_TOKENS\<close>) yields no chunk at all: its content is dropped.
\<close>

theorem processDocument_drops_trailing_segments:
  "processDocument (\<lambda>s. int (length s)) randomUUID wrk ttl [''hello''] = []"
  by (simp add: processDocument_def documentStep_def emptyBasicChunk_def TEXT_MAX_TOKENS_def Let_def)

lemma processDocument_drops_last_example:
  "map rawText (processDocument (\<lambda>s. 100) randomUUID wrk ttl [''a'', ''b'', ''c'', ''d''])
     = [''ab'', ''bc'']"
  by (simp add: processDocument_def documentStep_def emptyBasicChunk_def TEXT_MAX_TOKENS_def
      TEXT_OVERLAP_TOKENS_def getOverlapChunks_def finalizeBasicChunk_def Let_def)

section \<open>Building the database\<close>

text \<open>
  C8. \<open>create\<close> returns an \<open>Ok\<close> database exactly when the embedding tensor is
  2-dimensional, its row count is the number of chunks and its column count is positive; the
  database then holds the given chunks, that tensor and the metadata. On any violation the
  result is an \<open>Error\<close> with one of three messages, so no database is produced.
\<close>

theorem create_validates_embeddings:
  "(isOk (ChunkDb_create embedChunks now cs) \<longleftrightarrow>
      length (dims (embedChunks cs)) = 2 \<and> dims (embedChunks cs) ! 0 = length cs
      \<and> 0 < dims (embedChunks cs) ! 1)
   \<and> (ChunkDb_create embedChunks now cs = Ok db \<longrightarrow>
        db = \<lparr>ChunkDatabase.chunks = cs,
              ChunkDatabase.embeddings = embedChunks cs,
              ChunkDatabase.metadata =
                \<lparr>embeddingModel = MODEL_NAME, dimension = real (dims (embedChunks cs) ! 1),
                 createdAt = now\<rparr>\<rparr>)
   \<and> (\<not> (length (dims (embedChunks cs)) = 2 \<and> dims (embedChunks cs) ! 0 = length cs
          \<and> 0 < dims (embedChunks cs) ! 1) \<longrightarrow>
        ChunkDb_create embedChunks now cs = Error ''Invalid embeddings dimensions''
        \<or> ChunkDb_create embedChunks now cs = Error ''Mismatch between number of features and chunks''
        \<or> ChunkDb_create embedChunks now cs = Error ''Invalid vector length'')"
  by (auto simp: ChunkDb_create_def Let_def)

theorem create_validates_embeddings_witness:
  "ChunkDb_create (\<lambda>cs. sampleTensor) ''2025-01-01T00:00:00.000Z'' [sampleChunk] = Ok sampleDatabase
   \<and> sampleDatabase = \<lparr>ChunkDatabase.chunks = [sampleChunk],
        ChunkDatabase.embeddings = sampleTensor,
        ChunkDatabase.metadata = \<lparr>embeddingModel = MODEL_NAME, dimension = 2,
                                   createdAt = ''2025-01-01T00:00:00.000Z''\<rparr>\<rparr>
   \<and> \<not> (length (dims sampleTensor) = 2 \<and> dims sampleTensor ! 0 = length [sampleChunk, sampleChunk]
          \<and> 0 < dims sampleTensor ! 1)
   \<and> ChunkDb_create (\<lambda>cs. sampleTensor) ''2025-01-01T00:00:00.000Z'' [sampleChunk, sampleChunk]
       = Error ''Mismatch between number of features and chunks''"
  using create_validates_embeddings [of "\<lambda>cs. sampleTensor" "''2025-01-01T00:00:00.000Z''"
      "[sampleChunk]" sampleDatabase]
    create_validates_embeddings [of "\<lambda>cs. sampleTensor" "''2025-01-01T00:00:00.000Z''"
      "[sampleChunk, sampleChunk]" sampleDatabase]
  by (simp add: ChunkDb_create_def sampleTensor_def sampleDatabase_def Let_def)

section \<open>Deserialization checks the shape\<close>

lemma TensorDataSchema_Ok:
  "TensorDataSchema td = Ok td' \<Longrightarrow>
     td' = td \<and> real (length (TensorData.data td)) = fst (dimensions td) * snd (dimensions td)"
  by (simp add: TensorDataSchema_def split: if_splits)

lemma TensorDataSchema_mismatch:
  "real (length (TensorData.data td)) \<noteq> fst (dimensions td) * snd (dimensions td) \<Longrightarrow>
     isError (TensorDataSchema td)"
  by (simp add: TensorDataSchema_def)

lemma deserializeTensor_Ok:
  assumes "deserializeTensor newTensor json = Ok tensor"
  shows "real (length (TensorData.data json)) = fst (dimensions json) * snd (dimensions json)"
proof (cases "TensorDataSchema json")
  case (Ok td)
  then show ?thesis
    using TensorDataSchema_Ok by blast
next
  case (Error msg)
  with assms show ?thesis
    by (simp add: deserializeTensor_def)
qed

lemma SerializableChunkDatabaseSchema_Ok:
  assumes "SerializableChunkDatabaseSchema uuidv4 obj = Ok d"
  shows "d = obj" and "TensorDataSchema (SerializableChunkDatabase.embeddings obj)
                         = Ok (SerializableChunkDatabase.embeddings obj)"
    and "list_all (\<lambda>c. isOk (FinalizedChunkSchema uuidv4 c)) (SerializableChunkDatabase.chunks obj)"
  using assms TensorDataSchema_Ok [of "SerializableChunkDatabase.embeddings obj"]
  by (auto simp: SerializableChunkDatabaseSchema_def split: if_splits Result.splits)

lemma deserializeChunkDatabase_Ok:
  assumes "deserializeChunkDatabase uuidv4 newTensor obj = Ok db"
  shows "real (length (TensorData.data (SerializableChunkDatabase.embeddings obj)))
           = fst (dimensions (SerializableChunkDatabase.embeddings obj))
             * snd (dimensions (SerializableChunkDatabase.embeddings obj))"
proof (cases "SerializableChunkDatabaseSchema uuidv4 obj")
  case (Ok d)
  from SerializableChunkDatabaseSchema_Ok(2) [OF Ok] show ?thesis
    using TensorDataSchema_Ok by blast
next
  case (Error msg)
  with assms show ?thesis
    by (simp add: deserializeChunkDatabase_def)
qed

lemma isError_iff_not_Ok: "isError r \<longleftrightarrow> (\<forall>v. r \<noteq> Ok v)"
  by (cases r) simp_all

text \<open>
  C7. Deserializing a persisted embedding payload
  \<open>{dataType, data, dimensions: [rows, cols]}\<close> returns an error whenever
  \<open>data.length \<noteq> rows * cols\<close>; a tensor or a database comes back only when the flat array's
  length is exactly \<open>rows * cols\<close>. This holds for \<open>deserializeTensor\<close> and for the embeddings of
  \<open>deserializeChunkDatabase\<close>, whatever the tensor constructor does.
\<close>

theorem deserialization_rejects_shape_mismatch:
  "(real (length (TensorData.data json)) \<noteq> fst (dimensions json) * snd (dimensions json) \<longrightarrow>
      isError (deserializeTensor newTensor json))
   \<and> (deserializeTensor newTensor json = Ok tensor \<longrightarrow>
        real (length (TensorData.data json)) = fst (dimensions json) * snd (dimensions json))
   \<and> (real (length (TensorData.data (SerializableChunkDatabase.embeddings obj)))
         \<noteq> fst (dimensions (SerializableChunkDatabase.embeddings obj))
           * snd (dimensions (SerializableChunkDatabase.embeddings obj)) \<longrightarrow>
        isError (deserializeChunkDatabase uuidv4 newTensor obj))
   \<and> (deserializeChunkDatabase uuidv4 newTensor obj = Ok db \<longrightarrow>
        real (length (TensorData.data (SerializableChunkDatabase.embeddings obj)))
          = fst (dimensions (SerializableChunkDatabase.embeddings obj))
            * snd (dimensions (SerializableChunkDatabase.embeddings obj)))"
  using deserializeTensor_Ok [of newTensor json] deserializeChunkDatabase_Ok [of uuidv4 newTensor obj]
  unfolding isError_iff_not_Ok by blast

theorem deserialization_rejects_shape_mismatch_witness:
  "real (length (TensorData.data \<lparr>dataType = ''float32'', TensorData.data = [1, 2, 3], dimensions = (2, 2)\<rparr>))
     \<noteq> fst (dimensions \<lparr>dataType = ''float32'', TensorData.data = [1, 2, 3], dimensions = (2, 2)\<rparr>)
       * snd (dimensions \<lparr>dataType = ''float32'', TensorData.data = [1, 2, 3], dimensions = (2, 2)\<rparr>)
   \<and> isError (deserializeTensor tensorConstructor
        \<lparr>dataType = ''float32'', TensorData.data = [1, 2, 3], dimensions = (2, 2)\<rparr>)
   \<and> isError (deserializeChunkDatabase (\<lambda>s. length s = 36) tensorConstructor
        \<lparr>SerializableChunkDatabase.chunks = [sampleChunk],
         SerializableChunkDatabase.embeddings =
           \<lparr>dataType = ''float32'', TensorData.data = [1, 2, 3], dimensions = (2, 2)\<rparr>,
         SerializableChunkDatabase.metadata = ChunkDatabase.metadata sampleDatabase\<rparr>)
   \<and> deserializeTensor tensorConstructor
        \<lparr>dataType = ''float32'', TensorData.data = [1, 2, 3, 4, 5, 6], dimensions = (2, 3)\<rparr>
       = Ok \<lparr>Tensor.type = ''float32'', Tensor.data = Float32Array [1, 2, 3, 4, 5, 6], dims = [2, 3]\<rparr>
   \<and> real (length (TensorData.data
        \<lparr>dataType = ''float32'', TensorData.data = [1, 2, 3, 4, 5, 6], dimensions = (2, 3)\<rparr>))
       = fst (dimensions \<lparr>dataType = ''float32'', TensorData.data = [1, 2, 3, 4, 5, 6], dimensions = (2, 3)\<rparr>)
         * snd (dimensions \<lparr>dataType = ''float32'', TensorData.data = [1, 2, 3, 4, 5, 6], dimensions = (2, 3)\<rparr>)"
  using deserialization_rejects_shape_mismatch
    [of "\<lparr>dataType = ''float32'', TensorData.data = [1, 2, 3], dimensions = (2, 2)\<rparr>"
        tensorConstructor _
        "\<lparr>SerializableChunkDatabase.chunks = [sampleChunk],
         SerializableChunkDatabase.embeddings =
           \<lparr>dataType = ''float32'', TensorData.data = [1, 2, 3], dimensions = (2, 2)\<rparr>,
         SerializableChunkDatabase.metadata = ChunkDatabase.metadata sampleDatabase\<rparr>"
        "\<lambda>s. length s = 36"]
    deserialization_rejects_shape_mismatch
    [of "\<lparr>dataType = ''float32'', TensorData.data = [1, 2, 3, 4, 5, 6], dimensions = (2, 3)\<rparr>"
        tensorConstructor
        "\<lparr>Tensor.type = ''float32'', Tensor.data = Float32Array [1, 2, 3, 4, 5, 6], dims = [2, 3]\<rparr>"]
  by (simp add: deserializeTensor_def TensorDataSchema_def checkTensorDataDimensions_def
      tensorFromTensorData_def tensorConstructor_def)

section \<open>Round trip of the database\<close>

lemma createTensorData_float32:
  assumes "Tensor.type tensor = ''float32''" and "Tensor.data tensor = Float32Array vs"
    and "dims tensor = [n, d]"
  shows "createTensorData tensor =
           Ok \<lparr>dataType = ''float32'', TensorData.data = vs, dimensions = (real n, real d)\<rparr>"
  using assms by (simp add: createTensorData_def)

lemma TensorDataSchema_accepts:
  assumes "length vs = n * d"
  shows "TensorDataSchema \<lparr>dataType = ''float32'', TensorData.data = vs, dimensions = (real n, real d)\<rparr>
           = Ok \<lparr>dataType = ''float32'', TensorData.data = vs, dimensions = (real n, real d)\<rparr>"
  using assms by (simp add: TensorDataSchema_def)

lemma FinalizedChunkSchema_accepts:
  assumes "0 \<le> FinalizedChunk.totalTokens c" and "uuidv4 (FinalizedChunk.id c)"
    and "FinalizedChunk.totalTokens c \<le> int (length (rawText c))"
  shows "FinalizedChunkSchema uuidv4 c = Ok c"
  using assms by (simp add: FinalizedChunkSchema_def)

text \<open>
  C6. Let \<open>db\<close> be a database whose chunks satisfy the chunk schema (\<open>totalTokens\<close> between 0 and
  \<open>rawText.length\<close>, a version-4 UUID as \<open>id\<close>) and whose embedding tensor is a 2-dimensional
  \<open>float32\<close> tensor of \<open>n\<close> rows and \<open>d\<close> columns holding \<open>n * d\<close> values, and let the tensor
  constructor rebuild that tensor from its type, values and dimensions. Then
  \<open>serializeChunkDatabase\<close> succeeds and \<open>deserializeChunkDatabase\<close> of its output succeeds
  and returns \<open>db\<close> itself: the same chunk list, embedding tensor and metadata. (No
  positivity of \<open>d\<close> is needed.)
\<close>

theorem chunk_database_round_trip:
  assumes "Tensor.type (ChunkDatabase.embeddings db) = ''float32''"
    and "Tensor.data (ChunkDatabase.embeddings db) = Float32Array vs"
    and "dims (ChunkDatabase.embeddings db) = [n, d]"
    and "length vs = n * d"
    and "\<forall>c \<in> set (ChunkDatabase.chunks db).
           0 \<le> FinalizedChunk.totalTokens c \<and> uuidv4 (FinalizedChunk.id c)
           \<and> FinalizedChunk.totalTokens c \<le> int (length (rawText c))"
    and "newTensor ''float32'' vs (real n, real d) = Ok (ChunkDatabase.embeddings db)"
  shows "\<exists>s. serializeChunkDatabase db = Ok s
           \<and> deserializeChunkDatabase uuidv4 newTensor s = Ok db"
proof -
  let ?td = "\<lparr>dataType = ''float32'', TensorData.data = vs, dimensions = (real n, real d)\<rparr>"
  let ?s = "\<lparr>SerializableChunkDatabase.chunks = ChunkDatabase.chunks db,
             SerializableChunkDatabase.embeddings = ?td,
             SerializableChunkDatabase.metadata = ChunkDatabase.metadata db\<rparr>"
  have ser: "serializeChunkDatabase db = Ok ?s"
    using createTensorData_float32 [OF assms(1,2,3)]
    by (simp add: serializeChunkDatabase_def)
  have chunks: "list_all (\<lambda>c. isOk (FinalizedChunkSchema uuidv4 c)) (ChunkDatabase.chunks db)"
    using assms(5) by (simp add: list_all_iff FinalizedChunkSchema_accepts)
  have schema: "SerializableChunkDatabaseSchema uuidv4 ?s = Ok ?s"
    using chunks TensorDataSchema_accepts [OF assms(4)]
    by (simp add: SerializableChunkDatabaseSchema_def)
  have tensor: "tensorFromTensorData newTensor ?td = Ok (ChunkDatabase.embeddings db)"
    using assms(6) by (simp add: tensorFromTensorData_def)
  have "deserializeChunkDatabase uuidv4 newTensor ?s = Ok db"
    using schema tensor
    by (simp add: deserializeChunkDatabase_def chunkDatabaseFromSerializableChunkDatabase_def)
  with ser show ?thesis
    by blast
qed

theorem chunk_database_round_trip_witness:
  "Tensor.type (ChunkDatabase.embeddings sampleDatabase) = ''float32''
   \<and> Tensor.data (ChunkDatabase.embeddings sampleDatabase) = Float32Array [0.6, 0.8]
   \<and> dims (ChunkDatabase.embeddings sampleDatabase) = [1, 2]
   \<and> length [0.6, 0.8 :: real] = 1 * 2
   \<and> list_all (\<lambda>c. 0 \<le> FinalizedChunk.totalTokens c \<and> length (FinalizedChunk.id c) = 36
        \<and> FinalizedChunk.totalTokens c \<le> int (length (rawText c)))
        (ChunkDatabase.chunks sampleDatabase)
   \<and> tensorConstructor ''float32'' [0.6, 0.8] (real 1, real 2)
       = Ok (ChunkDatabase.embeddings sampleDatabase)
   \<and> (\<exists>s. serializeChunkDatabase sampleDatabase = Ok s
          \<and> deserializeChunkDatabase (\<lambda>s. length s = 36) tensorConstructor s = Ok sampleDatabase)"
  using chunk_database_round_trip [of sampleDatabase "[0.6, 0.8]" 1 2 "\<lambda>s. length s = 36"
      tensorConstructor]
  by (simp add: sampleDatabase_def sampleTensor_def sampleChunk_def tensorConstructor_def)

end
